theory Spec2Isabelle
  imports Complex_Main "HOL-Library.Word"
begin

unbundle bit_operations_syntax

section \<open>The Satellite object of pysquared\_eps.py\<close>

text \<open>
  Shallow embedding of the class \<open>Satellite\<close> of \<open>Batt_Board/lib/pysquared_eps.py\<close>:
  the attributes of the object and the hardware lines it drives are the fields of one record,
  every method is a function from the state before the call to the result of the call and the
  state after it. Numbers that Python holds as floats are rationals here. The getters compute
  with them exactly; in \<open>burn\<close>, where a float is cut to an integer, the rounding of the
  float operations is a parameter.
\<close>

subsection \<open>Data\<close>

datatype drive_mode = PUSH_PULL | OPEN_DRAIN

text \<open>The readings the telemetry getters take from their sensor objects.\<close>

datatype sensor =
    Pwr_bus_voltage | Pwr_shunt_voltage | Pwr_current
  | Solar_bus_voltage | Solar_current
  | Pct_temperature | Thermocouple_voltage

text \<open>
  One constructor per call into a hardware library made by the methods below:
  \<open>pwmio.PWMOut(board.BURN_ENABLE, frequency=freq, duty_cycle=0)\<close>, the attributes
  \<open>duty_cycle\<close> and the method \<open>deinit\<close> of that object, the attributes \<open>drive_mode\<close> and
  \<open>value\<close> of \<open>_relayA\<close>, \<open>neopixel[0] = v\<close>, the \<open>duty_cycle\<close> of channel \<open>i\<close> of the
  LED driver (\<open>Face0\<close> .. \<open>Face4\<close> are the channels 0 .. 4, \<open>heater\<close> is channel 15),
  \<open>time.sleep\<close> and one read of a sensor.
\<close>

datatype hwop =
    PWMOut_new rat
  | PWM_duty int
  | PWM_deinit
  | Relay_drive_mode drive_mode
  | Relay_value bool
  | Neopixel_set "nat \<times> nat \<times> nat"
  | Channel_duty nat int
  | Sleep rat
  | Bus_read sensor

datatype exn = HardwareFault | UnboundLocalError | AttributeError

text \<open>
  \<open>hardware\<close> is the dictionary of the same name (every key it is ever read at is created
  by \<open>__init__\<close>, so a total function suffices); \<open>nvm\<close> is the byte array
  \<open>microcontroller.nvm\<close> behind the class-level flags and counters; \<open>has_pct\<close> tells whether
  \<open>__init__\<close> assigned the attribute \<open>pct\<close>; \<open>burnwire\<close> tells whether the local variable
  \<open>burnwire\<close> of the running call of \<open>burn\<close> is bound; \<open>pwm_active\<close> and \<open>pwm_duty\<close> are
  the PWM output on the burn-enable pin; \<open>trace\<close> lists every hardware call attempted so far,
  oldest first.
\<close>

record satellite =
  hardware :: "string \<Rightarrow> bool"
  nvm :: "nat \<Rightarrow> 8 word"
  heating :: bool
  has_pct :: bool
  relayA_drive_mode :: drive_mode
  relayA_value :: bool
  neopixel0 :: "nat \<times> nat \<times> nat"
  channels :: "nat \<Rightarrow> int"
  pwm_active :: bool
  pwm_duty :: int
  burnwire :: bool
  trace :: "hwop list"

subsection \<open>Statements, exceptions and calls\<close>

text \<open>
  A statement either falls through to the next one, executes \<open>return v\<close>, or raises.
  A call of a method returns \<open>None\<close> when its body falls off the end.
\<close>

datatype 'r completion = Next | Return 'r | Raise exn

datatype 'r outcome = Returned "'r option" | Raised exn

type_synonym 'r stmt = "satellite \<Rightarrow> 'r completion \<times> satellite"

definition skip :: "'r stmt" where
  "skip s = (Next, s)"

definition ret :: "'r \<Rightarrow> 'r stmt" where
  "ret v s = (Return v, s)"

definition raise :: "exn \<Rightarrow> 'r stmt" where
  "raise e s = (Raise e, s)"

definition assign :: "(satellite \<Rightarrow> satellite) \<Rightarrow> 'r stmt" where
  "assign f s = (Next, f s)"

fun block :: "'r stmt list \<Rightarrow> 'r stmt" where
  "block [] s = (Next, s)"
| "block (c # cs) s = (case c s of (Next, s') \<Rightarrow> block cs s' | (r, s') \<Rightarrow> (r, s'))"

definition cond :: "(satellite \<Rightarrow> bool) \<Rightarrow> 'r stmt \<Rightarrow> 'r stmt \<Rightarrow> 'r stmt" where
  "cond p a b s = (if p s then a s else b s)"

text \<open>\<open>try: body except Exception as e: handler\<close>\<close>

definition try_except :: "'r stmt \<Rightarrow> 'r stmt \<Rightarrow> 'r stmt" where
  "try_except body handler s =
     (case body s of (Raise e, s') \<Rightarrow> handler s' | (r, s') \<Rightarrow> (r, s'))"

text \<open>
  \<open>try: body finally: fin\<close>: the \<open>finally\<close> suite runs however the body completes; when it
  falls through, the completion of the body stands, and when it raises, its exception replaces
  that completion.
\<close>

definition try_finally :: "'r stmt \<Rightarrow> 'r stmt \<Rightarrow> 'r stmt" where
  "try_finally body fin s =
     (case body s of (c, s') \<Rightarrow>
        (case fin s' of (Next, s'') \<Rightarrow> (c, s'') | (r, s'') \<Rightarrow> (r, s'')))"

definition call :: "'r stmt \<Rightarrow> satellite \<Rightarrow> 'r outcome \<times> satellite" where
  "call body s =
     (case body s of
        (Next, s') \<Rightarrow> (Returned None, s')
      | (Return v, s') \<Rightarrow> (Returned (Some v), s')
      | (Raise e, s') \<Rightarrow> (Raised e, s'))"

text \<open>\<open>debug_print\<close> only prints.\<close>

definition debug_print :: "'r stmt" where
  "debug_print = skip"

subsection \<open>Hardware calls\<close>

text \<open>
  The libraries behind the hardware calls are not part of the program. Whether a call raises
  is decided by an oracle \<open>flt\<close>: \<open>flt k op\<close> tells whether \<open>op\<close>, attempted as the
  \<open>k\<close>-th hardware call since the trace was empty, raises. A call that raises has no effect;
  every attempted call is appended to the trace. A sensor read that succeeds as the \<open>k\<close>-th
  call yields \<open>rd k\<close>.
\<close>

definition hw :: "(nat \<Rightarrow> hwop \<Rightarrow> bool) \<Rightarrow> hwop \<Rightarrow> (satellite \<Rightarrow> satellite) \<Rightarrow> 'r stmt" where
  "hw flt op eff s =
     (if flt (length (trace s)) op
      then (Raise HardwareFault, s\<lparr>trace := trace s @ [op]\<rparr>)
      else (Next, eff (s\<lparr>trace := trace s @ [op]\<rparr>)))"

definition bus_read ::
  "(nat \<Rightarrow> hwop \<Rightarrow> bool) \<Rightarrow> (nat \<Rightarrow> rat) \<Rightarrow> sensor \<Rightarrow> satellite \<Rightarrow> (exn + rat) \<times> satellite" where
  "bus_read flt rd sn s =
     (if flt (length (trace s)) (Bus_read sn)
      then (Inl HardwareFault, s\<lparr>trace := trace s @ [Bus_read sn]\<rparr>)
      else (Inr (rd (length (trace s))), s\<lparr>trace := trace s @ [Bus_read sn]\<rparr>))"

definition relay_drive_mode :: "(nat \<Rightarrow> hwop \<Rightarrow> bool) \<Rightarrow> drive_mode \<Rightarrow> 'r stmt" where
  "relay_drive_mode flt m = hw flt (Relay_drive_mode m) (\<lambda>s. s\<lparr>relayA_drive_mode := m\<rparr>)"

definition relay_value :: "(nat \<Rightarrow> hwop \<Rightarrow> bool) \<Rightarrow> bool \<Rightarrow> 'r stmt" where
  "relay_value flt v = hw flt (Relay_value v) (\<lambda>s. s\<lparr>relayA_value := v\<rparr>)"

definition channel_duty :: "(nat \<Rightarrow> hwop \<Rightarrow> bool) \<Rightarrow> nat \<Rightarrow> int \<Rightarrow> 'r stmt" where
  "channel_duty flt i v = hw flt (Channel_duty i v) (\<lambda>s. s\<lparr>channels := (channels s)(i := v)\<rparr>)"

definition sleep :: "(nat \<Rightarrow> hwop \<Rightarrow> bool) \<Rightarrow> rat \<Rightarrow> 'r stmt" where
  "sleep flt d = hw flt (Sleep d) (\<lambda>s. s)"

text \<open>\<open>burnwire = pwmio.PWMOut(board.BURN_ENABLE, frequency=freq, duty_cycle=0)\<close>\<close>

definition burnwire_new :: "(nat \<Rightarrow> hwop \<Rightarrow> bool) \<Rightarrow> rat \<Rightarrow> 'r stmt" where
  "burnwire_new flt freq =
     hw flt (PWMOut_new freq) (\<lambda>s. s\<lparr>pwm_active := True, pwm_duty := 0, burnwire := True\<rparr>)"

text \<open>\<open>burnwire.duty_cycle = v\<close> and \<open>burnwire.deinit()\<close>: reading an unbound local raises.\<close>

definition burnwire_duty :: "(nat \<Rightarrow> hwop \<Rightarrow> bool) \<Rightarrow> int \<Rightarrow> 'r stmt" where
  "burnwire_duty flt v =
     cond burnwire (hw flt (PWM_duty v) (\<lambda>s. s\<lparr>pwm_duty := v\<rparr>)) (raise UnboundLocalError)"

definition burnwire_deinit :: "(nat \<Rightarrow> hwop \<Rightarrow> bool) \<Rightarrow> 'r stmt" where
  "burnwire_deinit flt =
     cond burnwire (hw flt PWM_deinit (\<lambda>s. s\<lparr>pwm_active := False\<rparr>)) (raise UnboundLocalError)"

text \<open>The setter of the property \<open>RGB\<close> (lines 313-321).\<close>

definition RGB_set :: "(nat \<Rightarrow> hwop \<Rightarrow> bool) \<Rightarrow> nat \<times> nat \<times> nat \<Rightarrow> 'r stmt" where
  "RGB_set flt v =
     cond (\<lambda>s. hardware s ''NEO'')
       (try_except (hw flt (Neopixel_set v) (\<lambda>s. s\<lparr>neopixel0 := v\<rparr>)) debug_print)
       debug_print"

subsection \<open>The burn wire (lines 648-703)\<close>

text \<open>Python's \<open>int\<close> of a float truncates towards zero.\<close>

definition py_int :: "rat \<Rightarrow> int" where
  "py_int x = (if 0 \<le> x then \<lfloor>x\<rfloor> else \<lceil>x\<rceil>)"

text \<open>
  \<open>dtycycl = int((dutycycle / 100) * (0xFFFF))\<close>: a float division and a float
  multiplication, each of which returns the exact result rounded to a float. The float
  format belongs to the interpreter, not to the program: \<open>fl\<close> is its rounding, the function
  from the exact result of an operation to the float returned for it.
\<close>

definition dtycycl :: "(rat \<Rightarrow> rat) \<Rightarrow> rat \<Rightarrow> int" where
  "dtycycl fl dutycycle = py_int (fl (fl (dutycycle / 100) * 65535))"

definition burn_try ::
  "(rat \<Rightarrow> rat) \<Rightarrow> (nat \<Rightarrow> hwop \<Rightarrow> bool) \<Rightarrow> string \<Rightarrow> rat \<Rightarrow> rat \<Rightarrow> rat \<Rightarrow> bool stmt" where
  "burn_try fl flt burn_num dutycycle freq duration =
     block [
       debug_print,
       debug_print,
       (if CHR ''1'' \<in> set burn_num then burnwire_new flt freq else ret False),
       relay_drive_mode flt PUSH_PULL,
       relay_value flt True,
       RGB_set flt (255, 165, 0),
       sleep flt (1 / 2),
       burnwire_duty flt (dtycycl fl dutycycle),
       sleep flt duration,
       relay_value flt False,
       burnwire_duty flt 0,
       RGB_set flt (0, 0, 0),
       relay_drive_mode flt OPEN_DRAIN,
       ret True]"

definition burn_except :: "bool stmt" where
  "burn_except = block [debug_print, ret False]"

definition burn_finally :: "(nat \<Rightarrow> hwop \<Rightarrow> bool) \<Rightarrow> bool stmt" where
  "burn_finally flt =
     block [
       relay_value flt False,
       burnwire_duty flt 0,
       RGB_set flt (0, 0, 0),
       burnwire_deinit flt,
       relay_drive_mode flt OPEN_DRAIN]"

text \<open>A call of \<open>burn\<close> starts with its local \<open>burnwire\<close> unbound.\<close>

definition burn ::
  "(rat \<Rightarrow> rat) \<Rightarrow> (nat \<Rightarrow> hwop \<Rightarrow> bool) \<Rightarrow> string \<Rightarrow> rat \<Rightarrow> rat \<Rightarrow> rat
     \<Rightarrow> satellite \<Rightarrow> bool outcome \<times> satellite" where
  "burn fl flt burn_num dutycycle freq duration s =
     call (try_finally
             (try_except (burn_try fl flt burn_num dutycycle freq duration) burn_except)
             (burn_finally flt))
          (s\<lparr>burnwire := False\<rparr>)"

subsection \<open>Non-volatile flags and counters (lines 36-64)\<close>

text \<open>
  The descriptors \<open>bitFlag\<close> and \<open>multiBitFlag\<close> behind the flags and counters of the class
  come from the module \<open>bitflags\<close>, which is imported but is not among the sources. The four
  accessors below stand for them. All of them act on the byte array \<open>nvm\<close> directly: a
  write goes through at once and cannot fail.
\<close>

text \<open>
  Modelled from the spec: \<open>get_flag(bit) -> bool\<close> of the missing module \<open>bitflags\<close>, the
  read of a \<open>bitFlag(register, bit)\<close>: one bit of one byte of the non-volatile memory.
\<close>

definition get_flag :: "nat \<Rightarrow> nat \<Rightarrow> satellite \<Rightarrow> bool" where
  "get_flag register b s = bit (nvm s register) b"

text \<open>
  Modelled from the spec: \<open>set_flag(bit, bool)\<close> of the missing module \<open>bitflags\<close>, the
  write of a \<open>bitFlag(register, bit)\<close>: it sets or clears that bit and leaves the others.
\<close>

definition set_flag :: "nat \<Rightarrow> nat \<Rightarrow> bool \<Rightarrow> satellite \<Rightarrow> satellite" where
  "set_flag register b v s =
     s\<lparr>nvm := (nvm s)(register :=
          (if v then set_bit b (nvm s register) else unset_bit b (nvm s register)))\<rparr>"

text \<open>
  Modelled from the spec: \<open>get_bits(register, lowest_bit, width) -> uint\<close> of the missing
  module \<open>bitflags\<close>, the read of a \<open>multiBitFlag(register, lowest_bit, num_bits)\<close>.
\<close>

definition get_bits :: "nat \<Rightarrow> nat \<Rightarrow> nat \<Rightarrow> satellite \<Rightarrow> nat" where
  "get_bits register lowest_bit num_bits s =
     unat (take_bit num_bits (drop_bit lowest_bit (nvm s register)))"

text \<open>
  Modelled from the spec: \<open>set_bits(register, lowest_bit, width, value)\<close> of the missing
  module \<open>bitflags\<close>, the write of a \<open>multiBitFlag\<close>: the value is clamped to the width of
  the field, and the bits outside the field are left as they are.
\<close>

definition set_bits :: "nat \<Rightarrow> nat \<Rightarrow> nat \<Rightarrow> nat \<Rightarrow> satellite \<Rightarrow> satellite" where
  "set_bits register lowest_bit num_bits v s =
     s\<lparr>nvm := (nvm s)(register :=
          (nvm s register AND NOT (push_bit lowest_bit (mask num_bits)))
          OR push_bit lowest_bit (word_of_nat (min v (2 ^ num_bits - 1))))\<rparr>"

text \<open>The register numbers and the flags of the class that the methods below use.\<close>

definition DIST :: nat where "DIST = 13"
definition FLAG :: nat where "FLAG = 16"

definition f_burnarm :: "satellite \<Rightarrow> bool" where
  "f_burnarm = get_flag FLAG 2"

definition f_brownout :: "satellite \<Rightarrow> bool" where
  "f_brownout = get_flag FLAG 3"

definition f_burned :: "satellite \<Rightarrow> bool" where
  "f_burned = get_flag FLAG 6"

definition c_distance :: "satellite \<Rightarrow> nat" where
  "c_distance = get_bits DIST 0 8"

subsection \<open>Arming (lines 331-365)\<close>

text \<open>
  The setters of the properties \<open>burnarm\<close>, \<open>burned\<close> and \<open>dist\<close> write the flags
  \<open>f_burnarm\<close>, \<open>f_burned\<close> and the counter \<open>c_distance\<close>.
\<close>

definition arm_satellite_body :: "unit stmt list" where
  "arm_satellite_body = [
     assign (set_flag FLAG 2 True),
     assign (set_flag FLAG 6 False),
     assign (set_bits DIST 0 8 0)]"

definition arm_satellite :: "satellite \<Rightarrow> unit outcome \<times> satellite" where
  "arm_satellite = call (block arm_satellite_body)"

definition disarm_satellite_body :: "unit stmt list" where
  "disarm_satellite_body = [
     assign (set_flag FLAG 2 False),
     assign (set_flag FLAG 6 True),
     assign (set_bits DIST 0 8 0)]"

definition disarm_satellite :: "satellite \<Rightarrow> unit outcome \<times> satellite" where
  "disarm_satellite = call (block disarm_satellite_body)"

subsection \<open>Powering the faces down (lines 81-98)\<close>

definition all_faces_off :: "(nat \<Rightarrow> hwop \<Rightarrow> bool) \<Rightarrow> satellite \<Rightarrow> unit outcome \<times> satellite" where
  "all_faces_off flt =
     call (cond (\<lambda>s. hardware s ''FLD'')
       (block [
          channel_duty flt 0 0,
          sleep flt (1 / 10),
          assign (\<lambda>s. s\<lparr>hardware := (hardware s)(''Face0'' := False)\<rparr>),
          channel_duty flt 1 0,
          sleep flt (1 / 10),
          assign (\<lambda>s. s\<lparr>hardware := (hardware s)(''Face1'' := False)\<rparr>),
          channel_duty flt 2 0,
          sleep flt (1 / 10),
          assign (\<lambda>s. s\<lparr>hardware := (hardware s)(''Face2'' := False)\<rparr>),
          channel_duty flt 3 0,
          sleep flt (1 / 10),
          assign (\<lambda>s. s\<lparr>hardware := (hardware s)(''Face3'' := False)\<rparr>),
          channel_duty flt 4 0,
          sleep flt (1 / 10),
          assign (\<lambda>s. s\<lparr>hardware := (hardware s)(''Face4'' := False)\<rparr>)])
       skip)"

subsection \<open>The heater (lines 605-646)\<close>

definition heater_on :: "(nat \<Rightarrow> hwop \<Rightarrow> bool) \<Rightarrow> satellite \<Rightarrow> unit outcome \<times> satellite" where
  "heater_on flt =
     call (cond (\<lambda>s. hardware s ''FLD'')
       (try_except
          (block [
             relay_drive_mode flt PUSH_PULL,
             cond f_brownout
               skip
               (block [
                  assign (set_flag FLAG 3 True),
                  assign (\<lambda>s. s\<lparr>heating := True\<rparr>),
                  relay_value flt True,
                  RGB_set flt (255, 165, 0),
                  sleep flt (1 / 4),
                  channel_duty flt 15 32767])])
          (block [debug_print, channel_duty flt 15 0]))
       debug_print)"

definition heater_off :: "(nat \<Rightarrow> hwop \<Rightarrow> bool) \<Rightarrow> satellite \<Rightarrow> unit outcome \<times> satellite" where
  "heater_off flt =
     call (cond (\<lambda>s. hardware s ''FLD'')
       (try_except
          (block [
             channel_duty flt 15 0,
             relay_value flt False,
             relay_drive_mode flt OPEN_DRAIN,
             cond heating
               (block [
                  assign (\<lambda>s. s\<lparr>heating := False\<rparr>),
                  assign (set_flag FLAG 3 False),
                  debug_print,
                  RGB_set flt (0, 0, 0)])
               skip])
          (block [debug_print, channel_duty flt 15 0]))
       debug_print)"

subsection \<open>Telemetry getters (lines 493-603)\<close>

text \<open>
  \<open>for _ in range(n): acc += e\<close>, where evaluating \<open>e\<close> reads the sensors: the sum so far is
  the local variable, and a read that raises ends the loop.
\<close>

fun sum_samples ::
  "(satellite \<Rightarrow> (exn + rat) \<times> satellite) \<Rightarrow> nat \<Rightarrow> rat \<Rightarrow> satellite \<Rightarrow> (exn + rat) \<times> satellite" where
  "sum_samples e 0 acc s = (Inr acc, s)"
| "sum_samples e (Suc n) acc s =
     (case e s of
        (Inl x, s') \<Rightarrow> (Inl x, s')
      | (Inr v, s') \<Rightarrow> sum_samples e n (acc + v) s')"

text \<open>\<open>return f(acc)\<close> after the loop, as a statement.\<close>

definition return_of ::
  "(satellite \<Rightarrow> (exn + rat) \<times> satellite) \<Rightarrow> (rat \<Rightarrow> rat) \<Rightarrow> rat stmt" where
  "return_of e f s = (case e s of (Inl x, s') \<Rightarrow> (Raise x, s') | (Inr v, s') \<Rightarrow> (Return (f v), s'))"

text \<open>\<open>self.pwr.bus_voltage + self.pwr.shunt_voltage\<close>, read left to right.\<close>

definition add_reads ::
  "(satellite \<Rightarrow> (exn + rat) \<times> satellite) \<Rightarrow> (satellite \<Rightarrow> (exn + rat) \<times> satellite)
     \<Rightarrow> satellite \<Rightarrow> (exn + rat) \<times> satellite" where
  "add_reads a b s =
     (case a s of
        (Inl x, s') \<Rightarrow> (Inl x, s')
      | (Inr v, s') \<Rightarrow>
          (case b s' of (Inl x, s'') \<Rightarrow> (Inl x, s'') | (Inr w, s'') \<Rightarrow> (Inr (v + w), s'')))"

definition battery_voltage ::
  "(nat \<Rightarrow> hwop \<Rightarrow> bool) \<Rightarrow> (nat \<Rightarrow> rat) \<Rightarrow> satellite \<Rightarrow> rat outcome \<times> satellite" where
  "battery_voltage flt rd =
     call (cond (\<lambda>s. hardware s ''PWR'')
       (try_except
          (return_of (sum_samples (bus_read flt rd Pwr_bus_voltage) 50 0) (\<lambda>voltage. voltage / 50 + 2 / 10))
          debug_print)
       debug_print)"

definition system_voltage ::
  "(nat \<Rightarrow> hwop \<Rightarrow> bool) \<Rightarrow> (nat \<Rightarrow> rat) \<Rightarrow> satellite \<Rightarrow> rat outcome \<times> satellite" where
  "system_voltage flt rd =
     call (cond (\<lambda>s. hardware s ''PWR'')
       (try_except
          (return_of
             (sum_samples
                (add_reads (bus_read flt rd Pwr_bus_voltage) (bus_read flt rd Pwr_shunt_voltage)) 50 0)
             (\<lambda>voltage. voltage / 50))
          debug_print)
       debug_print)"

definition current_draw ::
  "(nat \<Rightarrow> hwop \<Rightarrow> bool) \<Rightarrow> (nat \<Rightarrow> rat) \<Rightarrow> satellite \<Rightarrow> rat outcome \<times> satellite" where
  "current_draw flt rd =
     call (cond (\<lambda>s. hardware s ''PWR'')
       (try_except
          (return_of (sum_samples (bus_read flt rd Pwr_current) 50 0) (\<lambda>idraw. idraw / 50))
          debug_print)
       debug_print)"

definition charge_voltage ::
  "(nat \<Rightarrow> hwop \<Rightarrow> bool) \<Rightarrow> (nat \<Rightarrow> rat) \<Rightarrow> satellite \<Rightarrow> rat outcome \<times> satellite" where
  "charge_voltage flt rd =
     call (cond (\<lambda>s. hardware s ''SOLAR'')
       (try_except
          (return_of (sum_samples (bus_read flt rd Solar_bus_voltage) 50 0) (\<lambda>voltage. voltage / 50 + 2 / 10))
          debug_print)
       debug_print)"

definition charge_current ::
  "(nat \<Rightarrow> hwop \<Rightarrow> bool) \<Rightarrow> (nat \<Rightarrow> rat) \<Rightarrow> satellite \<Rightarrow> rat outcome \<times> satellite" where
  "charge_current flt rd =
     call (cond (\<lambda>s. hardware s ''SOLAR'')
       (try_except
          (return_of (sum_samples (bus_read flt rd Solar_current) 50 0) (\<lambda>ichrg. ichrg / 50))
          debug_print)
       debug_print)"

text \<open>
  \<open>return self.pct.temperature\<close>: the attribute \<open>pct\<close> exists only when \<open>__init__\<close> could
  create the sensor object (line 250); the dictionary \<open>hardware\<close> is not consulted.
\<close>

definition internal_temperature ::
  "(nat \<Rightarrow> hwop \<Rightarrow> bool) \<Rightarrow> (nat \<Rightarrow> rat) \<Rightarrow> satellite \<Rightarrow> rat outcome \<times> satellite" where
  "internal_temperature flt rd =
     call (cond has_pct
       (return_of (bus_read flt rd Pct_temperature) (\<lambda>temperature. temperature))
       (raise AttributeError))"

definition battery_temperature ::
  "(nat \<Rightarrow> hwop \<Rightarrow> bool) \<Rightarrow> (nat \<Rightarrow> rat) \<Rightarrow> satellite \<Rightarrow> rat outcome \<times> satellite" where
  "battery_temperature flt rd =
     call (cond (\<lambda>s. hardware s ''COUPLE'')
       (return_of (bus_read flt rd Thermocouple_voltage) (\<lambda>voltage. (voltage - 125 / 100) / (5 / 1000)))
       debug_print)"

subsection \<open>States for the examples\<close>

text \<open>
  The oracle under which no hardware call raises, and the state \<open>__init__\<close> leaves when every
  peripheral came up (lines 113-142, 164, 177, 217-285): the relay is an open-drain output
  driven low, the pixel shows \<open>(0, 0, 255)\<close>, the five faces are at full duty, the heater is
  not on, no PWM output exists. The watchdog entry is never set by \<open>__init__\<close>. The
  non-volatile memory is taken as all zero.
\<close>

definition no_fault :: "nat \<Rightarrow> hwop \<Rightarrow> bool" where
  "no_fault k op = False"

text \<open>
  Two float roundings for the examples: arithmetic without rounding error, and a coarse
  arithmetic that cuts every result down to a multiple of \<open>2 ^ - 20\<close>.
\<close>

definition exact :: "rat \<Rightarrow> rat" where
  "exact x = x"

definition chop :: "rat \<Rightarrow> rat" where
  "chop x = of_int \<lfloor>x * 2 ^ 20\<rfloor> / 2 ^ 20"

definition nominal :: satellite where
  "nominal = \<lparr>
     hardware = (\<lambda>k. k \<in> set [''NEO'', ''TCA'', ''SOLAR'', ''PWR'', ''FLD'', ''TEMP'', ''COUPLE'',
                              ''CAN'', ''Face0'', ''Face1'', ''Face2'', ''Face3'', ''Face4'']),
     nvm = (\<lambda>r. 0),
     heating = False,
     has_pct = True,
     relayA_drive_mode = OPEN_DRAIN,
     relayA_value = False,
     neopixel0 = (0, 0, 255),
     channels = (\<lambda>i. if i < 5 then 65535 else 0),
     pwm_active = False,
     pwm_duty = 0,
     burnwire = False,
     trace = [] \<rparr>"

subsection \<open>Observations\<close>

text \<open>The values written to \<open>burnwire.duty_cycle\<close> in a trace, in order.\<close>

fun duties :: "hwop list \<Rightarrow> int list" where
  "duties [] = []"
| "duties (PWM_duty v # ops) = v # duties ops"
| "duties (_ # ops) = duties ops"

text \<open>A statement keeps an observation \<open>g\<close> of the state when no run of it changes \<open>g\<close>.\<close>

definition keeps :: "(satellite \<Rightarrow> 'a) \<Rightarrow> 'r stmt \<Rightarrow> bool" where
  "keeps g c = (\<forall>s. g (snd (c s)) = g s)"

text \<open>
  Sequences of calls of \<open>arm_satellite\<close>, \<open>disarm_satellite\<close> and \<open>burn\<close>, each call of
  \<open>burn\<close> with its arguments and with the behaviour of the hardware during it. The caller
  goes on after a call whether it returned or raised. \<open>visited cs s\<close> lists the states
  before, between and after the calls of \<open>cs\<close> started in \<open>s\<close>.
\<close>

datatype method_call =
  Arm | Disarm | Burn "rat \<Rightarrow> rat" "nat \<Rightarrow> hwop \<Rightarrow> bool" string rat rat rat

fun exec :: "method_call \<Rightarrow> satellite \<Rightarrow> satellite" where
  "exec Arm s = snd (arm_satellite s)"
| "exec Disarm s = snd (disarm_satellite s)"
| "exec (Burn fl flt burn_num dutycycle freq duration) s =
     snd (burn fl flt burn_num dutycycle freq duration s)"

fun visited :: "method_call list \<Rightarrow> satellite \<Rightarrow> satellite list" where
  "visited [] s = [s]"
| "visited (c # cs) s = s # visited cs (exec c s)"

text \<open>
  The states a suite passes through: \<open>passed cs s\<close> lists the state after each statement
  of \<open>cs\<close> executed from \<open>s\<close>, up to the first one that does not fall through.
\<close>

fun passed :: "'r stmt list \<Rightarrow> satellite \<Rightarrow> satellite list" where
  "passed [] s = []"
| "passed (c # cs) s = (case c s of (Next, s') \<Rightarrow> s' # passed cs s' | (r, s') \<Rightarrow> [s'])"

section \<open>Properties\<close>

lemmas stmt_defs = skip_def ret_def raise_def assign_def cond_def try_except_def try_finally_def
  call_def debug_print_def hw_def relay_drive_mode_def relay_value_def channel_duty_def sleep_def
  burnwire_new_def burnwire_duty_def burnwire_deinit_def RGB_set_def

lemmas burn_defs = burn_def burn_try_def burn_except_def burn_finally_def

lemmas nvm_defs = get_flag_def set_flag_def set_bits_def f_brownout_def f_burnarm_def
  f_burned_def FLAG_def DIST_def

subsection \<open>Clean-up after burn\<close>

text \<open>
  Once the PWM output has been created, the \<open>finally\<close> suite does what it is there for:
  whatever raises between the allocation and the end of the pulse, if the five clean-up
  calls themselves succeed (and the pixel is present), \<open>burn\<close> returns a boolean and leaves
  the relay low, the duty at 0, the PWM output released, the pixel dark and the relay line
  open-drain.
\<close>

lemma burn_cleanup_when_allocated:
  assumes "CHR ''1'' \<in> set burn_num"
    and "hardware s ''NEO''"
    and "\<And>k. \<not> flt k (PWMOut_new f)"
    and "\<And>k. \<not> flt k (Relay_value False)"
    and "\<And>k. \<not> flt k (PWM_duty 0)"
    and "\<And>k. \<not> flt k (Neopixel_set (0, 0, 0))"
    and "\<And>k. \<not> flt k PWM_deinit"
    and "\<And>k. \<not> flt k (Relay_drive_mode OPEN_DRAIN)"
  shows "(\<exists>b. fst (burn fl flt burn_num d f dur s) = Returned (Some b))
       \<and> \<not> relayA_value (snd (burn fl flt burn_num d f dur s))
       \<and> pwm_duty (snd (burn fl flt burn_num d f dur s)) = 0
       \<and> \<not> pwm_active (snd (burn fl flt burn_num d f dur s))
       \<and> neopixel0 (snd (burn fl flt burn_num d f dur s)) = (0, 0, 0)
       \<and> relayA_drive_mode (snd (burn fl flt burn_num d f dur s)) = OPEN_DRAIN"
  using assms by (auto simp add: burn_defs stmt_defs)

text \<open>
  A call of \<open>burn\<close> that cannot create its PWM output, like a call for another circuit,
  never returns: the \<open>finally\<close> suite raises.
\<close>

lemma burn_failed_allocation_never_returns:
  "CHR ''1'' \<in> set burn_num \<Longrightarrow> flt (length (trace s)) (PWMOut_new f) \<Longrightarrow>
   fst (burn fl flt burn_num d f dur s) \<in> {Raised UnboundLocalError, Raised HardwareFault}"
  by (simp add: burn_defs stmt_defs)

lemma burn_unsupported_never_returns:
  "CHR ''1'' \<notin> set burn_num \<Longrightarrow>
   fst (burn fl flt burn_num d f dur s) \<in> {Raised UnboundLocalError, Raised HardwareFault}"
  by (simp add: burn_defs stmt_defs)

text \<open>
  C1 (after every call of \<open>burn\<close> on circuit 1, however the hardware steps end, the relay
  is low, the duty is 0, the PWM output is released, the pixel is cleared to \<open>(0, 0, 0)\<close> and
  the relay line is open-drain again) does not hold of the code. The \<open>finally\<close> suite names
  the local \<open>burnwire\<close>, which is unbound when \<open>pwmio.PWMOut\<close> raises: the suite drives
  the relay low and then stops with an \<open>UnboundLocalError\<close>, before the pixel is cleared and
  before the relay line is put back to open-drain. Here \<open>burn\<close> is called on circuit 1 while
  the heater is on (the relay line push-pull, the pixel orange) and the allocation of the
  PWM output raises: the call ends with the exception, the relay line still push-pull and
  the pixel still orange.
\<close>

theorem C1_burn_failed_allocation_skips_cleanup:
  "CHR ''1'' \<in> set ''1''
   \<and> fst (burn exact (\<lambda>k op. op = PWMOut_new 1000) ''1'' 50 1000 1 (snd (heater_on no_fault nominal)))
       = Raised UnboundLocalError
   \<and> relayA_drive_mode (snd (burn exact (\<lambda>k op. op = PWMOut_new 1000) ''1'' 50 1000 1
       (snd (heater_on no_fault nominal)))) = PUSH_PULL
   \<and> neopixel0 (snd (burn exact (\<lambda>k op. op = PWMOut_new 1000) ''1'' 50 1000 1
       (snd (heater_on no_fault nominal)))) = (255, 165, 0)"
  by (simp add: burn_defs heater_on_def stmt_defs no_fault_def nominal_def nvm_defs)

subsection \<open>The result of burn\<close>

text \<open>
  C2 (for every input and every behaviour of the hardware, \<open>burn\<close> returns a boolean and
  lets no exception reach its caller) does not hold of the code. With the second circuit,
  which the docstring of \<open>burn\<close> allows, and hardware that never fails, the body executes
  \<open>return False\<close> with \<open>burnwire\<close> unbound, and the \<open>finally\<close> suite raises
  \<open>UnboundLocalError\<close> to the caller.
\<close>

theorem C2_burn_unsupported_channel_raises:
  "fst (burn exact no_fault ''2'' 50 1000 1 nominal) = Raised UnboundLocalError"
  by (simp add: burn_defs stmt_defs no_fault_def nominal_def)

subsection \<open>burn on an unsupported circuit\<close>

text \<open>
  C3, as the claim states it, fails: called with circuit 2 on working hardware, \<open>burn\<close>
  makes one hardware call, the write of 0 to the relay line by the \<open>finally\<close> suite, and
  its result is not \<open>False\<close>.
\<close>

theorem C3_burn_unsupported_counterexample:
  "CHR ''1'' \<notin> set ''2''
   \<and> trace nominal = []
   \<and> trace (snd (burn exact no_fault ''2'' 0 1000 1 nominal)) = [Relay_value False]
   \<and> fst (burn exact no_fault ''2'' 0 1000 1 nominal) \<noteq> Returned (Some False)"
  by (simp add: burn_defs stmt_defs no_fault_def nominal_def)

text \<open>
  C3, amended: for every call of \<open>burn\<close> with a circuit other than circuit 1, and whatever
  the hardware does, no PWM output is created and none of the engaging steps is executed:
  every hardware call made is one of the five calls of the clean-up (relay low, duty 0,
  pixel dark, release of the PWM output, relay line open-drain), the first of them the
  write of 0 to the relay line; the relay line is not driven high and the state of the PWM
  output is as before. (Nothing is said here about the result of the call.)
\<close>

theorem C3_burn_unsupported_only_cleanup:
  assumes "CHR ''1'' \<notin> set burn_num"
  shows "set (drop (length (trace s)) (trace (snd (burn fl flt burn_num d f dur s))))
           \<subseteq> {Relay_value False, PWM_duty 0, Neopixel_set (0, 0, 0), PWM_deinit,
                Relay_drive_mode OPEN_DRAIN}
       \<and> take 1 (drop (length (trace s)) (trace (snd (burn fl flt burn_num d f dur s))))
           = [Relay_value False]
       \<and> pwm_active (snd (burn fl flt burn_num d f dur s)) = pwm_active s
       \<and> (relayA_value (snd (burn fl flt burn_num d f dur s)) \<longrightarrow> relayA_value s)"
  using assms by (simp add: burn_defs stmt_defs)

theorem C3_burn_unsupported_only_cleanup_witness:
  "CHR ''1'' \<notin> set ''A2''
   \<and> set (drop (length (trace nominal)) (trace (snd (burn exact (\<lambda>k op. True) ''A2'' 75 500 2 nominal))))
       \<subseteq> {Relay_value False, PWM_duty 0, Neopixel_set (0, 0, 0), PWM_deinit,
            Relay_drive_mode OPEN_DRAIN}
   \<and> take 1 (drop (length (trace nominal))
        (trace (snd (burn exact (\<lambda>k op. True) ''A2'' 75 500 2 nominal)))) = [Relay_value False]
   \<and> pwm_active (snd (burn exact (\<lambda>k op. True) ''A2'' 75 500 2 nominal)) = pwm_active nominal
   \<and> \<not> relayA_value (snd (burn exact (\<lambda>k op. True) ''A2'' 75 500 2 nominal))"
proof -
  have other: "CHR ''1'' \<notin> set ''A2''"
    by simp
  have low: "\<not> relayA_value nominal"
    by (simp add: nominal_def)
  show ?thesis
    using other low
      C3_burn_unsupported_only_cleanup [OF other, of nominal exact "\<lambda>k op. True" 75 500 2]
    by simp
qed

subsection \<open>heater\_on under the brownout guard\<close>

text \<open>
  C4, as the claim states it, fails: \<open>heater_on\<close> writes the drive mode of the relay line
  before it looks at \<open>f_brownout\<close>. Started after a reset that found the flag set (the relay
  line open-drain), it switches the line to push-pull.
\<close>

theorem C4_heater_on_guarded_counterexample:
  "hardware (set_flag FLAG 3 True nominal) ''FLD''
   \<and> f_brownout (set_flag FLAG 3 True nominal)
   \<and> relayA_drive_mode (set_flag FLAG 3 True nominal) = OPEN_DRAIN
   \<and> relayA_drive_mode (snd (heater_on no_fault (set_flag FLAG 3 True nominal))) = PUSH_PULL
   \<and> trace (snd (heater_on no_fault (set_flag FLAG 3 True nominal)))
       = [Relay_drive_mode PUSH_PULL]"
  by (simp add: heater_on_def stmt_defs nvm_defs bit_simps nominal_def no_fault_def)

text \<open>
  C4, amended: for every call of \<open>heater_on\<close> with \<open>f_brownout\<close> already set and the LED
  driver present, the heater is not engaged: \<open>heating\<close>, the non-volatile memory (so
  \<open>f_brownout\<close>), the value of the relay line, the pixel and the capability table are
  unchanged. The call is not a no-op: it switches the relay line to push-pull; when that
  write succeeds it is the only hardware call and the only change of state, and \<open>None\<close> is
  returned; when it raises, the only further hardware call is the handler's write of 0 to
  the duty of the heater.
\<close>

theorem C4_heater_on_guarded:
  assumes "hardware s ''FLD''" and "f_brownout s"
  shows "heating (snd (heater_on flt s)) = heating s
       \<and> nvm (snd (heater_on flt s)) = nvm s
       \<and> relayA_value (snd (heater_on flt s)) = relayA_value s
       \<and> neopixel0 (snd (heater_on flt s)) = neopixel0 s
       \<and> hardware (snd (heater_on flt s)) = hardware s
       \<and> set (drop (length (trace s)) (trace (snd (heater_on flt s))))
            \<subseteq> {Relay_drive_mode PUSH_PULL, Channel_duty 15 0}
       \<and> (\<not> flt (length (trace s)) (Relay_drive_mode PUSH_PULL) \<longrightarrow>
            heater_on flt s = (Returned None,
              s\<lparr>relayA_drive_mode := PUSH_PULL, trace := trace s @ [Relay_drive_mode PUSH_PULL]\<rparr>))"
  using assms by (simp add: heater_on_def stmt_defs nvm_defs)

theorem C4_heater_on_guarded_witness:
  "hardware (snd (heater_on no_fault nominal)) ''FLD''
   \<and> f_brownout (snd (heater_on no_fault nominal))
   \<and> \<not> no_fault (length (trace (snd (heater_on no_fault nominal)))) (Relay_drive_mode PUSH_PULL)
   \<and> heater_on no_fault (snd (heater_on no_fault nominal)) =
       (Returned None, (snd (heater_on no_fault nominal))
          \<lparr>relayA_drive_mode := PUSH_PULL,
           trace := trace (snd (heater_on no_fault nominal)) @ [Relay_drive_mode PUSH_PULL]\<rparr>)"
proof -
  have fld: "hardware (snd (heater_on no_fault nominal)) ''FLD''"
    by (simp add: heater_on_def stmt_defs nvm_defs nominal_def no_fault_def)
  have guard: "f_brownout (snd (heater_on no_fault nominal))"
    by (simp add: heater_on_def stmt_defs nvm_defs bit_simps nominal_def no_fault_def)
  have ok: "\<not> no_fault (length (trace (snd (heater_on no_fault nominal))))
      (Relay_drive_mode PUSH_PULL)"
    by (simp add: no_fault_def)
  show ?thesis
    using fld guard ok C4_heater_on_guarded [OF fld guard, of no_fault]
    by blast
qed

subsection \<open>Telemetry without the peripheral\<close>

text \<open>
  Six of the seven getters look at the capability table first, and without the peripheral
  return \<open>None\<close> with the state, and so the trace, untouched.
\<close>

lemma gated_getters_unavailable:
  "\<not> hardware s ''PWR'' \<Longrightarrow> battery_voltage flt rd s = (Returned None, s)"
  "\<not> hardware s ''PWR'' \<Longrightarrow> system_voltage flt rd s = (Returned None, s)"
  "\<not> hardware s ''PWR'' \<Longrightarrow> current_draw flt rd s = (Returned None, s)"
  "\<not> hardware s ''SOLAR'' \<Longrightarrow> charge_voltage flt rd s = (Returned None, s)"
  "\<not> hardware s ''SOLAR'' \<Longrightarrow> charge_current flt rd s = (Returned None, s)"
  "\<not> hardware s ''COUPLE'' \<Longrightarrow> battery_temperature flt rd s = (Returned None, s)"
  by (simp_all add: battery_voltage_def system_voltage_def current_draw_def charge_voltage_def
      charge_current_def battery_temperature_def stmt_defs)

text \<open>The seventh never returns \<open>None\<close>: it reads the sensor or raises.\<close>

lemma internal_temperature_never_unavailable:
  "fst (internal_temperature flt rd s) \<noteq> Returned None"
  by (simp add: internal_temperature_def stmt_defs return_of_def bus_read_def)

text \<open>
  C5 (each of the seven getters, when its entry of the capability table is false, returns
  "unavailable" without raising and without a bus read) does not hold of the code for
  \<open>internal_temperature\<close>, which does not look at the entry \<open>TEMP\<close> as its siblings look
  at theirs. After an \<open>__init__\<close> in which the temperature sensor could not be created (the
  entry false, the attribute \<open>pct\<close> never assigned) the getter raises \<open>AttributeError\<close>.
\<close>

theorem C5_internal_temperature_not_gated:
  "\<not> hardware (nominal\<lparr>hardware := (hardware nominal)(''TEMP'' := False), has_pct := False\<rparr>)
       ''TEMP''
   \<and> fst (internal_temperature no_fault (\<lambda>k. 20)
        (nominal\<lparr>hardware := (hardware nominal)(''TEMP'' := False), has_pct := False\<rparr>))
       = Raised AttributeError"
  by (simp add: internal_temperature_def stmt_defs)

subsection \<open>Armed and burned\<close>

lemma snd_call: "snd (call body s) = snd (body s)"
  by (simp add: call_def split: prod.split completion.split)

lemma keepsD: "keeps g c \<Longrightarrow> g (snd (c s)) = g s"
  by (simp add: keeps_def)

lemma keeps_block: "(\<And>c. c \<in> set cs \<Longrightarrow> keeps g c) \<Longrightarrow> keeps g (block cs)"
proof (induction cs)
  case Nil
  then show ?case by (simp add: keeps_def)
next
  case (Cons c cs)
  have c: "keeps g c" using Cons.prems by simp
  have cs: "keeps g (block cs)" using Cons.IH Cons.prems by simp
  show ?case
    unfolding keeps_def
  proof
    fix s
    obtain r s' where run: "c s = (r, s')" by (cases "c s")
    have "g s' = g s" using keepsD [OF c, of s] run by simp
    then show "g (snd (block (c # cs) s)) = g s"
      using run keepsD [OF cs, of s'] by (cases r) simp_all
  qed
qed

lemma keeps_try_except: "keeps g a \<Longrightarrow> keeps g b \<Longrightarrow> keeps g (try_except a b)"
  unfolding keeps_def
proof
  fix s
  assume a: "\<forall>s. g (snd (a s)) = g s" and b: "\<forall>s. g (snd (b s)) = g s"
  obtain r s' where run: "a s = (r, s')" by (cases "a s")
  have "g s' = g s" using a [rule_format, of s] run by simp
  then show "g (snd (try_except a b s)) = g s"
    using run b [rule_format, of s'] by (cases r) (simp_all add: try_except_def)
qed

lemma keeps_try_finally: "keeps g a \<Longrightarrow> keeps g b \<Longrightarrow> keeps g (try_finally a b)"
  unfolding keeps_def
proof
  fix s
  assume a: "\<forall>s. g (snd (a s)) = g s" and b: "\<forall>s. g (snd (b s)) = g s"
  obtain r s' where body: "a s = (r, s')" by (cases "a s")
  obtain r' s'' where fin: "b s' = (r', s'')" by (cases "b s'")
  have "g s' = g s" using a [rule_format, of s] body by simp
  moreover have "g s'' = g s'" using b [rule_format, of s'] fin by simp
  ultimately show "g (snd (try_finally a b s)) = g s"
    using body fin by (cases r') (simp_all add: try_finally_def)
qed

lemma keeps_cond: "keeps g a \<Longrightarrow> keeps g b \<Longrightarrow> keeps g (cond p a b)"
  by (simp add: keeps_def cond_def)

lemma keeps_simple: "keeps g skip" "keeps g (ret v)" "keeps g (raise e)" "keeps g debug_print"
  by (simp_all add: keeps_def skip_def ret_def raise_def debug_print_def)

lemma keeps_hw:
  "(\<And>s t. g (s\<lparr>trace := t\<rparr>) = g s) \<Longrightarrow> (\<And>s. g (eff s) = g s) \<Longrightarrow> keeps g (hw flt op eff)"
  by (simp add: keeps_def hw_def)

lemma keeps_nvm_ops:
  "keeps nvm (relay_drive_mode flt m)" "keeps nvm (relay_value flt v)"
  "keeps nvm (sleep flt t)" "keeps nvm (burnwire_new flt f)"
  "keeps nvm (burnwire_duty flt d)" "keeps nvm (burnwire_deinit flt)"
  "keeps nvm (RGB_set flt c)"
  by (simp_all add: relay_drive_mode_def relay_value_def sleep_def burnwire_new_def
      burnwire_duty_def burnwire_deinit_def RGB_set_def
      keeps_hw keeps_cond keeps_try_except keeps_simple)

text \<open>\<open>burn\<close> never writes the non-volatile memory.\<close>

lemma burn_keeps_nvm: "nvm (snd (burn fl flt burn_num d f dur s)) = nvm s"
proof -
  have body: "keeps nvm (burn_try fl flt burn_num d f dur)"
    unfolding burn_try_def by (rule keeps_block) (auto simp: keeps_nvm_ops keeps_simple)
  have handler: "keeps nvm (burn_except :: bool stmt)"
    unfolding burn_except_def by (rule keeps_block) (auto simp: keeps_simple)
  have fin: "keeps nvm (burn_finally flt :: bool stmt)"
    unfolding burn_finally_def by (rule keeps_block) (auto simp: keeps_nvm_ops)
  have "keeps nvm (try_finally (try_except (burn_try fl flt burn_num d f dur) burn_except)
      (burn_finally flt))"
    by (intro keeps_try_finally keeps_try_except body handler fin)
  then have "nvm (snd (try_finally (try_except (burn_try fl flt burn_num d f dur) burn_except)
      (burn_finally flt) (s\<lparr>burnwire := False\<rparr>))) = nvm (s\<lparr>burnwire := False\<rparr>)"
    by (rule keepsD)
  then show ?thesis
    by (simp add: burn_def snd_call)
qed

lemma arm_flags: "f_burnarm (snd (arm_satellite s))" "\<not> f_burned (snd (arm_satellite s))"
  by (simp_all add: arm_satellite_def arm_satellite_body_def call_def assign_def nvm_defs
      bit_simps)

lemma disarm_flags:
  "\<not> f_burnarm (snd (disarm_satellite s))" "f_burned (snd (disarm_satellite s))"
  by (simp_all add: disarm_satellite_def disarm_satellite_body_def call_def assign_def
      nvm_defs bit_simps)

lemma mask_byte: "mask 8 = (- 1 :: 8 word)"
  using mask_full [where ?'a = 8] by simp

text \<open>Arming and then disarming leaves the satellite disarmed, burned, at distance 0.\<close>

lemma arm_then_disarm:
  "\<not> f_burnarm (snd (disarm_satellite (snd (arm_satellite s))))
   \<and> f_burned (snd (disarm_satellite (snd (arm_satellite s))))
   \<and> c_distance (snd (disarm_satellite (snd (arm_satellite s)))) = 0"
  by (simp add: arm_satellite_def arm_satellite_body_def disarm_satellite_def
      disarm_satellite_body_def call_def assign_def nvm_defs bit_simps
      c_distance_def get_bits_def mask_byte)

lemma exec_never_both:
  assumes "\<not> (f_burnarm s \<and> f_burned s)"
  shows "\<not> (f_burnarm (exec c s) \<and> f_burned (exec c s))"
proof (cases c)
  case Arm
  then show ?thesis using arm_flags [of s] by simp
next
  case Disarm
  then show ?thesis using disarm_flags [of s] by simp
next
  case (Burn fl flt burn_num d f dur)
  have "f_burnarm (exec c s) = f_burnarm s" and "f_burned (exec c s) = f_burned s"
    using Burn burn_keeps_nvm [of fl flt burn_num d f dur s]
    by (simp_all add: f_burnarm_def f_burned_def get_flag_def)
  then show ?thesis using assms by simp
qed

text \<open>
  C6, as the claim states it, fails. The flags are in non-volatile memory and each write
  goes through at once, so the states inside a call are reached too. After a call of
  \<open>disarm_satellite\<close>, the first write of \<open>arm_satellite\<close> (line 356) sets \<open>f_burnarm\<close>
  while \<open>f_burned\<close> is still set; only the second write (line 357) clears it.
\<close>

theorem C6_armed_and_burned_counterexample:
  "\<not> (f_burnarm nominal \<and> f_burned nominal)
   \<and> f_burnarm (hd (passed arm_satellite_body (exec Disarm nominal)))
   \<and> f_burned (hd (passed arm_satellite_body (exec Disarm nominal)))"
  by (simp add: arm_satellite_body_def disarm_satellite_def disarm_satellite_body_def call_def
      assign_def nvm_defs bit_simps nominal_def)

text \<open>
  C6, amended: started in a state where \<open>f_burnarm\<close> and \<open>f_burned\<close> are not both set, no
  sequence of calls of \<open>arm_satellite\<close>, \<open>disarm_satellite\<close> and \<open>burn\<close> (with any
  arguments, the hardware behaving in any way, each call returning or raising) has both
  flags set in a state before, between or after its calls.
\<close>

theorem C6_never_armed_and_burned:
  assumes "\<not> (f_burnarm s \<and> f_burned s)"
  shows "\<forall>s' \<in> set (visited cs s). \<not> (f_burnarm s' \<and> f_burned s')"
  using assms
proof (induction cs arbitrary: s)
  case Nil
  then show ?case by simp
next
  case (Cons c cs)
  have "\<not> (f_burnarm (exec c s) \<and> f_burned (exec c s))"
    using Cons.prems by (rule exec_never_both)
  then have "\<forall>s' \<in> set (visited cs (exec c s)). \<not> (f_burnarm s' \<and> f_burned s')"
    by (rule Cons.IH)
  then show ?case using Cons.prems by simp
qed

theorem C6_never_armed_and_burned_witness:
  "\<not> (f_burnarm nominal \<and> f_burned nominal)
   \<and> \<not> (f_burnarm (last (visited [Arm, Burn exact no_fault ''1'' 50 1000 1, Disarm, Arm] nominal))
        \<and> f_burned (last (visited [Arm, Burn exact no_fault ''1'' 50 1000 1, Disarm, Arm] nominal)))"
proof -
  have start: "\<not> (f_burnarm nominal \<and> f_burned nominal)"
    by (simp add: nominal_def nvm_defs)
  have "visited [Arm, Burn exact no_fault ''1'' 50 1000 1, Disarm, Arm] nominal \<noteq> []"
    by simp
  then have "last (visited [Arm, Burn exact no_fault ''1'' 50 1000 1, Disarm, Arm] nominal)
       \<in> set (visited [Arm, Burn exact no_fault ''1'' 50 1000 1, Disarm, Arm] nominal)"
    by (rule last_in_set)
  then show ?thesis
    using start
      C6_never_armed_and_burned
        [OF start, of "[Arm, Burn exact no_fault ''1'' 50 1000 1, Disarm, Arm]"]
    by blast
qed

subsection \<open>A fault while the faces are powered down\<close>

text \<open>
  C7, as the claim states it, fails: \<open>all_faces_off\<close> has no handler, so the fault of
  face 3 ends the call. Face 4 is not processed: its duty stays at full and its entry stays
  true.
\<close>

theorem C7_all_faces_off_counterexample:
  "hardware nominal ''FLD''
   \<and> fst (all_faces_off (\<lambda>k op. op = Channel_duty 3 0) nominal) = Raised HardwareFault
   \<and> hardware (snd (all_faces_off (\<lambda>k op. op = Channel_duty 3 0) nominal)) ''Face4''
   \<and> channels (snd (all_faces_off (\<lambda>k op. op = Channel_duty 3 0) nominal)) 4 = 65535
   \<and> Channel_duty 4 0
       \<notin> set (trace (snd (all_faces_off (\<lambda>k op. op = Channel_duty 3 0) nominal)))"
  by (simp add: all_faces_off_def stmt_defs nominal_def)

text \<open>
  C7, amended: for every run of \<open>all_faces_off\<close> with the LED driver present in which the
  six hardware calls for the faces 0, 1 and 2 succeed and the write of duty 0 to face 3
  raises, the fault reaches the caller, the faces 0, 1 and 2 end recorded as off, and the
  faces 3 and 4 are left as they were: their entries are unchanged, and the duty of face 4
  is not written.
\<close>

theorem C7_all_faces_off_aborts:
  assumes fld: "hardware s ''FLD''"
    and before: "\<And>k op. k < 6 \<Longrightarrow> \<not> flt (length (trace s) + k) op"
    and face3: "flt (length (trace s) + 6) (Channel_duty 3 0)"
  shows "fst (all_faces_off flt s) = Raised HardwareFault
       \<and> \<not> hardware (snd (all_faces_off flt s)) ''Face0''
       \<and> \<not> hardware (snd (all_faces_off flt s)) ''Face1''
       \<and> \<not> hardware (snd (all_faces_off flt s)) ''Face2''
       \<and> hardware (snd (all_faces_off flt s)) ''Face3'' = hardware s ''Face3''
       \<and> hardware (snd (all_faces_off flt s)) ''Face4'' = hardware s ''Face4''
       \<and> channels (snd (all_faces_off flt s)) 4 = channels s 4
       \<and> Channel_duty 4 0 \<notin> set (drop (length (trace s)) (trace (snd (all_faces_off flt s))))"
proof -
  have ok: "\<not> flt (length (trace s)) op"
    "\<not> flt (Suc (length (trace s))) op"
    "\<not> flt (Suc (Suc (length (trace s)))) op"
    "\<not> flt (Suc (Suc (Suc (length (trace s))))) op"
    "\<not> flt (Suc (Suc (Suc (Suc (length (trace s)))))) op"
    "\<not> flt (Suc (Suc (Suc (Suc (Suc (length (trace s))))))) op" for op
    using before [of 0 op] before [of 1 op] before [of 2 op] before [of 3 op] before [of 4 op]
      before [of 5 op]
    by (simp_all add: eval_nat_numeral)
  have bad: "flt (Suc (Suc (Suc (Suc (Suc (Suc (length (trace s)))))))) (Channel_duty 3 0)"
    using face3 by (simp add: eval_nat_numeral)
  show ?thesis
    using fld ok bad by (simp add: all_faces_off_def stmt_defs)
qed

theorem C7_all_faces_off_aborts_witness:
  "hardware nominal ''FLD''
   \<and> (\<lambda>k op. k = 6) (length (trace nominal) + 6) (Channel_duty 3 0)
   \<and> fst (all_faces_off (\<lambda>k op. k = 6) nominal) = Raised HardwareFault
   \<and> \<not> hardware (snd (all_faces_off (\<lambda>k op. k = 6) nominal)) ''Face0''
   \<and> \<not> hardware (snd (all_faces_off (\<lambda>k op. k = 6) nominal)) ''Face1''
   \<and> \<not> hardware (snd (all_faces_off (\<lambda>k op. k = 6) nominal)) ''Face2''
   \<and> hardware (snd (all_faces_off (\<lambda>k op. k = 6) nominal)) ''Face3''
   \<and> hardware (snd (all_faces_off (\<lambda>k op. k = 6) nominal)) ''Face4''
   \<and> channels (snd (all_faces_off (\<lambda>k op. k = 6) nominal)) 4 = 65535"
proof -
  have fld: "hardware nominal ''FLD''"
    by (simp add: nominal_def)
  have before: "\<not> (\<lambda>k op. k = 6) (length (trace nominal) + k) op" if "k < 6" for k and op :: hwop
    using that by (simp add: nominal_def)
  have face3: "(\<lambda>k op. k = 6) (length (trace nominal) + 6) (Channel_duty 3 0)"
    by (simp add: nominal_def)
  have entries: "hardware nominal ''Face3''" "hardware nominal ''Face4''"
    "channels nominal 4 = 65535"
    by (simp_all add: nominal_def)
  show ?thesis
    using fld face3 entries
      C7_all_faces_off_aborts [of nominal "\<lambda>k op. k = 6", OF fld before face3]
    by simp
qed

subsection \<open>The duty applied by burn\<close>

lemma burn_duties_no_fault:
  "CHR ''1'' \<in> set burn_num \<Longrightarrow>
   duties (drop (length (trace s)) (trace (snd (burn fl no_fault burn_num d f dur s))))
     = [dtycycl fl d, 0, 0]"
  by (simp add: burn_defs stmt_defs no_fault_def)

text \<open>Without rounding error the duty is the exact product rounded down.\<close>

lemma dtycycl_exact: "0 \<le> d \<Longrightarrow> dtycycl exact d = \<lfloor>d / 100 * 65535\<rfloor>"
  by (simp add: dtycycl_def py_int_def exact_def)

text \<open>
  At 50 percent no float format rounds anything: in every arithmetic that holds one half
  and 32767.5 exactly (every binary format of 17 bits or more) the duty is 32767.
\<close>

lemma dtycycl_50:
  assumes "fl (1 / 2) = 1 / 2" and "fl (65535 / 2) = 65535 / 2"
  shows "dtycycl fl 50 = 32767"
proof -
  have half: "(50::rat) / 100 = 1 / 2"
    by simp
  have prod: "(1 / 2 :: rat) * 65535 = 65535 / 2"
    by simp
  have "fl (fl (50 / 100) * 65535) = 65535 / 2"
    by (simp only: half assms(1) prod assms(2))
  then have "dtycycl fl 50 = py_int (65535 / 2)"
    by (simp only: dtycycl_def)
  also have "\<dots> = 32767"
    by (simp add: py_int_def floor_eq_iff)
  finally show ?thesis .
qed

lemma round_50: "round ((50::rat) / 100 * 65535) = 32768"
  unfolding round_def by (simp add: floor_eq_iff)

text \<open>
  C8, as the claim states it, fails: at a duty cycle of 50 percent the value written to the
  PWM output is 32767, while \<open>round (50 / 100 * 0xFFFF)\<close> is 32768. (The quotient is exactly
  0.5 and the product exactly 32767.5, so the arithmetic of the example is that of the
  floats.)
\<close>

theorem C8_burn_duty_round_counterexample:
  "duties (trace (snd (burn exact no_fault ''1'' 50 1000 1 nominal))) = [32767, 0, 0]
   \<and> round ((50::rat) / 100 * 65535) = 32768"
proof
  have "dtycycl exact 50 = 32767"
    by (rule dtycycl_50) (simp_all add: exact_def)
  then show "duties (trace (snd (burn exact no_fault ''1'' 50 1000 1 nominal))) = [32767, 0, 0]"
    by (simp add: burn_defs stmt_defs no_fault_def nominal_def)
  show "round ((50::rat) / 100 * 65535) = 32768"
    by (rule round_50)
qed

text \<open>
  What the two float operations can do to the product. The rounding \<open>fl\<close> is monotone,
  leaves 0, 1 and 65535 as they are, and up to 65535 is off by at most \<open>2 ^ - 20\<close> of the
  larger of 1 and its argument (IEEE doubles are within \<open>2 ^ - 53\<close>, the 30-bit floats of
  the small CircuitPython boards within \<open>2 ^ - 21\<close>). Then for a percentage in \<open>[0, 100]\<close>
  the float product is within one quarter of the exact one, and between 0 and 65535.
\<close>

lemma float_product_near:
  fixes fl :: "rat \<Rightarrow> rat"
  assumes d: "0 \<le> d" "d \<le> 100"
    and mono: "\<And>x y. x \<le> y \<Longrightarrow> fl x \<le> fl y"
    and fixed: "fl 0 = 0" "fl 1 = 1" "fl 65535 = 65535"
    and near: "\<And>x. 0 \<le> x \<Longrightarrow> x \<le> 65535 \<Longrightarrow> \<bar>fl x - x\<bar> \<le> max 1 x / 2 ^ 20"
  shows "0 \<le> fl (fl (d / 100) * 65535)"
    and "fl (fl (d / 100) * 65535) \<le> 65535"
    and "\<bar>fl (fl (d / 100) * 65535) - d / 100 * 65535\<bar> < 1 / 4"
proof -
  define a where "a = d / 100"
  define q where "q = fl a"
  define y where "y = q * 65535"
  define p where "p = fl y"
  have a: "0 \<le> a" "a \<le> 1"
    using d by (simp_all add: a_def)
  have q: "0 \<le> q" "q \<le> 1"
    using mono [OF a(1)] mono [OF a(2)] fixed by (simp_all add: q_def)
  have "max 1 a = 1"
    using a(2) by (rule max_absorb1)
  moreover have "\<bar>q - a\<bar> \<le> max 1 a / 2 ^ 20"
    unfolding q_def using a by (intro near) simp_all
  ultimately have qa: "\<bar>q - a\<bar> \<le> 1 / 2 ^ 20"
    by (simp only:)
  have y: "0 \<le> y" "y \<le> 65535"
    using q by (simp_all add: y_def)
  have p0: "0 \<le> p"
    using mono [OF y(1)] fixed by (simp add: p_def)
  have p1: "p \<le> 65535"
    using mono [OF y(2)] fixed by (simp add: p_def)
  have "\<bar>p - y\<bar> \<le> max 1 y / 2 ^ 20"
    unfolding p_def using y by (intro near)
  moreover have "max 1 y / 2 ^ 20 \<le> 65535 / 2 ^ 20"
    using y(2) by (intro divide_right_mono) simp_all
  ultimately have py: "\<bar>p - y\<bar> \<le> 65535 / 2 ^ 20"
    by (rule order_trans)
  have diff: "y - a * 65535 = (q - a) * 65535"
    by (simp add: y_def left_diff_distrib)
  have "\<bar>y - a * 65535\<bar> = \<bar>q - a\<bar> * 65535"
    by (simp only: diff abs_mult abs_numeral)
  also have "\<dots> \<le> 1 / 2 ^ 20 * 65535"
    using qa by (intro mult_right_mono) simp_all
  finally have yx: "\<bar>y - a * 65535\<bar> \<le> 65535 / 2 ^ 20"
    by simp
  have "\<bar>p - a * 65535\<bar> \<le> \<bar>p - y\<bar> + \<bar>y - a * 65535\<bar>"
    by linarith
  also have "\<dots> \<le> 65535 / 2 ^ 20 + 65535 / 2 ^ 20"
    using py yx by (rule add_mono)
  also have "\<dots> < 1 / 4"
    by simp
  finally have px: "\<bar>p - a * 65535\<bar> < 1 / 4" .
  show "0 \<le> fl (fl (d / 100) * 65535)"
    using p0 by (simp only: p_def y_def q_def a_def)
  show "fl (fl (d / 100) * 65535) \<le> 65535"
    using p1 by (simp only: p_def y_def q_def a_def)
  show "\<bar>fl (fl (d / 100) * 65535) - d / 100 * 65535\<bar> < 1 / 4"
    using px by (simp only: p_def y_def q_def a_def)
qed

text \<open>
  C8, amended: for every duty cycle percentage \<open>d\<close> in \<open>[0, 100]\<close>, a call of \<open>burn\<close> on the
  supported circuit in which no hardware call raises writes to the PWM output first
  \<open>int((d / 100) * 0xFFFF)\<close>, the float product cut down to an integer, then 0 twice (the two
  clean-ups). Whatever the float format (under the conditions of the lemma before), that
  value lies between 0 and \<open>0xFFFF\<close> and is either the rounded value of the claim or one
  below it.
\<close>

theorem C8_burn_duty_truncates:
  fixes fl :: "rat \<Rightarrow> rat"
  assumes d: "0 \<le> d" "d \<le> 100" and one: "CHR ''1'' \<in> set burn_num"
    and mono: "\<And>x y. x \<le> y \<Longrightarrow> fl x \<le> fl y"
    and fixed: "fl 0 = 0" "fl 1 = 1" "fl 65535 = 65535"
    and near: "\<And>x. 0 \<le> x \<Longrightarrow> x \<le> 65535 \<Longrightarrow> \<bar>fl x - x\<bar> \<le> max 1 x / 2 ^ 20"
  shows "duties (drop (length (trace s)) (trace (snd (burn fl no_fault burn_num d f dur s))))
           = [dtycycl fl d, 0, 0]
       \<and> 0 \<le> dtycycl fl d \<and> dtycycl fl d \<le> 65535
       \<and> (dtycycl fl d = round (d / 100 * 65535) \<or> dtycycl fl d = round (d / 100 * 65535) - 1)"
proof -
  define x where "x = d / 100 * 65535"
  define p where "p = fl (fl (d / 100) * 65535)"
  have p0: "0 \<le> p" and p1: "p \<le> 65535" and px: "\<bar>p - x\<bar> < 1 / 4"
    unfolding p_def x_def using float_product_near [of d fl, OF d mono fixed near] by blast+
  have v: "dtycycl fl d = \<lfloor>p\<rfloor>"
    using p0 by (simp add: dtycycl_def py_int_def p_def)
  have lo: "0 \<le> \<lfloor>p\<rfloor>"
    using p0 by simp
  have "\<lfloor>p\<rfloor> \<le> \<lfloor>65535::rat\<rfloor>"
    using p1 by (rule floor_mono)
  then have hi: "\<lfloor>p\<rfloor> \<le> 65535"
    by simp
  have fp: "of_int \<lfloor>p\<rfloor> \<le> p" "p < of_int \<lfloor>p\<rfloor> + 1"
    by linarith+
  have rx: "of_int (round x) \<le> x + 1 / 2" "x - 1 / 2 < of_int (round x)"
    using of_int_round_le [of x] of_int_round_gt [of x] by simp_all
  have "(of_int \<lfloor>p\<rfloor> :: rat) < of_int (round x) + 1"
    using fp(1) rx(2) px by linarith
  then have "(of_int \<lfloor>p\<rfloor> :: rat) < of_int (round x + 1)"
    by simp
  then have up: "\<lfloor>p\<rfloor> < round x + 1"
    by (simp only: of_int_less_iff)
  have "(of_int (round x) :: rat) < of_int \<lfloor>p\<rfloor> + 2"
    using fp(2) rx(1) px by linarith
  then have "(of_int (round x) :: rat) < of_int (\<lfloor>p\<rfloor> + 2)"
    by simp
  then have down: "round x < \<lfloor>p\<rfloor> + 2"
    by (simp only: of_int_less_iff)
  have "\<lfloor>p\<rfloor> = round x \<or> \<lfloor>p\<rfloor> = round x - 1"
    using up down by linarith
  then show ?thesis
    using burn_duties_no_fault [OF one, of s fl d f dur] v lo hi by (simp add: x_def)
qed

text \<open>
  The witness runs in the coarse arithmetic, at 20 percent: the exact product is 13107,
  the quotient is cut down to just under 0.2, and the duty written is 13106.
\<close>

lemma chop_mono:
  assumes "x \<le> y"
  shows "chop x \<le> chop y"
proof -
  have "x * 2 ^ 20 \<le> y * 2 ^ 20"
    using assms by simp
  then have "\<lfloor>x * 2 ^ 20\<rfloor> \<le> \<lfloor>y * 2 ^ 20\<rfloor>"
    by (rule floor_mono)
  then have "(of_int \<lfloor>x * 2 ^ 20\<rfloor> :: rat) \<le> of_int \<lfloor>y * 2 ^ 20\<rfloor>"
    by (simp only: of_int_le_iff)
  then show ?thesis
    unfolding chop_def by (intro divide_right_mono) simp_all
qed

lemma chop_near:
  assumes "0 \<le> x"
  shows "\<bar>chop x - x\<bar> \<le> max 1 x / 2 ^ 20"
proof -
  define n where "n = \<lfloor>x * 2 ^ 20\<rfloor>"
  have "of_int n \<le> x * 2 ^ 20" and "x * 2 ^ 20 < of_int n + 1"
    unfolding n_def by linarith+
  then have "of_int n / 2 ^ 20 \<le> x" and "x < of_int n / 2 ^ 20 + 1 / 2 ^ 20"
    by (simp_all add: field_simps)
  then have "\<bar>of_int n / 2 ^ 20 - x\<bar> \<le> 1 / 2 ^ 20"
    by linarith
  also have "\<dots> \<le> max 1 x / 2 ^ 20"
    by (intro divide_right_mono) simp_all
  finally show ?thesis
    by (simp only: chop_def n_def)
qed

lemma dtycycl_chop_20: "dtycycl chop 20 = 13106"
proof -
  have "\<lfloor>(20::rat) / 100 * 2 ^ 20\<rfloor> = 209715"
    by (simp add: floor_eq_iff)
  then have q: "chop (20 / 100) = 209715 / 2 ^ 20"
    by (simp only: chop_def of_int_numeral)
  have "(209715::rat) / 2 ^ 20 * 65535 * 2 ^ 20 = 13743672525"
    by simp
  then have "\<lfloor>(209715::rat) / 2 ^ 20 * 65535 * 2 ^ 20\<rfloor> = 13743672525"
    by (simp only: floor_numeral)
  then have p: "chop (209715 / 2 ^ 20 * 65535) = 13743672525 / 2 ^ 20"
    by (simp only: chop_def of_int_numeral)
  have "dtycycl chop 20 = py_int (13743672525 / 2 ^ 20)"
    by (simp only: dtycycl_def q p)
  also have "\<dots> = 13106"
    by (simp add: py_int_def floor_eq_iff)
  finally show ?thesis .
qed

theorem C8_burn_duty_truncates_witness:
  "(0::rat) \<le> 20 \<and> (20::rat) \<le> 100 \<and> CHR ''1'' \<in> set ''1''
   \<and> chop 0 = 0 \<and> chop 1 = 1 \<and> chop 65535 = 65535
   \<and> duties (drop (length (trace nominal)) (trace (snd (burn chop no_fault ''1'' 20 1000 1 nominal))))
       = [13106, 0, 0]
   \<and> round ((20::rat) / 100 * 65535) = 13107"
proof -
  have fixed: "chop 0 = 0" "chop 1 = 1" "chop 65535 = 65535"
    by (simp_all add: chop_def)
  have one: "CHR ''1'' \<in> set ''1''"
    by simp
  have near: "\<bar>chop x - x\<bar> \<le> max 1 x / 2 ^ 20" if "0 \<le> x" "x \<le> 65535" for x
    using that(1) by (rule chop_near)
  have r: "round ((20::rat) / 100 * 65535) = 13107"
    unfolding round_def by (simp add: floor_eq_iff)
  have "duties (drop (length (trace nominal))
      (trace (snd (burn chop no_fault ''1'' 20 1000 1 nominal)))) = [dtycycl chop 20, 0, 0]"
    using C8_burn_duty_truncates
      [of 20 "''1''" chop nominal 1000 1, OF _ _ one chop_mono fixed near]
    by simp
  then show ?thesis
    using fixed one r by (simp add: dtycycl_chop_20)
qed

subsection \<open>The battery voltage\<close>

text \<open>
  A loop of \<open>n\<close> reads of one sensor, none of which raises, adds the \<open>n\<close> values read to
  the accumulator and appends \<open>n\<close> reads to the trace.
\<close>

lemma sum_samples_bus_read:
  "(\<And>i. i < n \<Longrightarrow> \<not> flt (length (trace s) + i) (Bus_read sn)) \<Longrightarrow>
   sum_samples (bus_read flt rd sn) n acc s =
     (Inr (acc + (\<Sum>i<n. rd (length (trace s) + i))),
      s\<lparr>trace := trace s @ replicate n (Bus_read sn)\<rparr>)"
proof (induction n arbitrary: acc s)
  case 0
  then show ?case by simp
next
  case (Suc n)
  let ?s' = "s\<lparr>trace := trace s @ [Bus_read sn]\<rparr>"
  have first: "\<not> flt (length (trace s)) (Bus_read sn)"
    using Suc.prems [of 0] by simp
  have rest: "\<not> flt (length (trace ?s') + i) (Bus_read sn)" if "i < n" for i
    using Suc.prems [of "Suc i"] that by simp
  have step: "bus_read flt rd sn s = (Inr (rd (length (trace s))), ?s')"
    using first by (simp add: bus_read_def)
  have "sum_samples (bus_read flt rd sn) (Suc n) acc s
          = sum_samples (bus_read flt rd sn) n (acc + rd (length (trace s))) ?s'"
    by (simp add: step)
  also have "\<dots> = (Inr (acc + rd (length (trace s)) + (\<Sum>i<n. rd (length (trace ?s') + i))),
      ?s'\<lparr>trace := trace ?s' @ replicate n (Bus_read sn)\<rparr>)"
    using Suc.IH [of ?s' "acc + rd (length (trace s))"] rest by simp
  also have "\<dots> = (Inr (acc + (\<Sum>i<Suc n. rd (length (trace s) + i))),
      s\<lparr>trace := trace s @ replicate (Suc n) (Bus_read sn)\<rparr>)"
    by (simp add: sum.lessThan_Suc_shift replicate_app_Cons_same del: sum.lessThan_Suc)
  finally show ?case .
qed

text \<open>
  C9: with the power monitor present and fifty reads of the bus voltage that all succeed,
  \<open>battery_voltage\<close> makes exactly those fifty reads, one after the other, and returns
  their mean plus 0.2. (The witness is the case of the spec: a source that always reads
  5.0 gives 5.2.)
\<close>

theorem C9_battery_voltage_mean:
  assumes pwr: "hardware s ''PWR''"
    and ok: "\<And>i. i < 50 \<Longrightarrow> \<not> flt (length (trace s) + i) (Bus_read Pwr_bus_voltage)"
  shows "battery_voltage flt rd s =
           (Returned (Some ((\<Sum>i<50. rd (length (trace s) + i)) / 50 + 2 / 10)),
            s\<lparr>trace := trace s @ replicate 50 (Bus_read Pwr_bus_voltage)\<rparr>)"
  using pwr sum_samples_bus_read [of 50 flt s Pwr_bus_voltage rd 0, OF ok]
  by (simp add: battery_voltage_def return_of_def stmt_defs)

theorem C9_battery_voltage_mean_witness:
  "hardware nominal ''PWR''
   \<and> fst (battery_voltage no_fault (\<lambda>k. 5) nominal) = Returned (Some (52 / 10))
   \<and> trace (snd (battery_voltage no_fault (\<lambda>k. 5) nominal))
       = replicate 50 (Bus_read Pwr_bus_voltage)"
proof -
  have pwr: "hardware nominal ''PWR''"
    by (simp add: nominal_def)
  have ok: "\<not> no_fault (length (trace nominal) + i) (Bus_read Pwr_bus_voltage)" for i
    by (simp add: no_fault_def)
  show ?thesis
    using pwr C9_battery_voltage_mean [of nominal no_fault "\<lambda>k. 5", OF pwr ok]
    by (simp add: nominal_def)
qed

subsection \<open>The heater and the brownout flag\<close>

text \<open>
  C10: with the LED driver present, a call of \<open>heater_on\<close> or of \<open>heater_off\<close> that starts
  with \<open>heating\<close> equal to \<open>f_brownout\<close> ends with them equal, whatever the hardware does
  during the call (no fault, a fault caught by the handler, or a fault of the handler itself
  that reaches the caller).
\<close>

theorem C10_heater_keeps_flags_equal:
  assumes "hardware s ''FLD''" and "heating s = f_brownout s"
  shows "heating (snd (heater_on flt s)) = f_brownout (snd (heater_on flt s))
       \<and> heating (snd (heater_off flt s)) = f_brownout (snd (heater_off flt s))"
proof
  show "heating (snd (heater_on flt s)) = f_brownout (snd (heater_on flt s))"
    using assms by (simp add: heater_on_def stmt_defs nvm_defs bit_simps)
  show "heating (snd (heater_off flt s)) = f_brownout (snd (heater_off flt s))"
    using assms by (simp add: heater_off_def stmt_defs nvm_defs bit_simps)
qed

theorem C10_heater_keeps_flags_equal_witness:
  "hardware nominal ''FLD'' \<and> heating nominal = f_brownout nominal
   \<and> heating (snd (heater_on no_fault nominal)) = f_brownout (snd (heater_on no_fault nominal))
   \<and> heating (snd (heater_off no_fault nominal)) = f_brownout (snd (heater_off no_fault nominal))"
proof -
  have fld: "hardware nominal ''FLD''"
    by (simp add: nominal_def)
  have eq: "heating nominal = f_brownout nominal"
    by (simp add: nominal_def nvm_defs)
  show ?thesis
    using fld eq C10_heater_keeps_flags_equal [OF fld eq, of no_fault] by simp
qed

end
